theory Spec2Isabelle
  imports Main "HOL-Library.AList" "HOL-Library.Char_ord" "HOL-Library.List_Lexorder"
begin

section \<open>Values, dictionaries and Python errors\<close>

text \<open>
  The adapters of \<^verbatim>\<open>chat/adapters.py\<close> work on Python values of type \<^verbatim>\<open>Dict[str, Any]\<close>:
  keyword arguments, request bodies and decoded backend responses. They are modelled by
  the JSON values below. A dictionary is an association list in insertion order, looked
  up with \<^const>\<open>map_of\<close> and written with \<^const>\<open>AList.update\<close> (an existing key keeps
  its place, a new key goes to the end, as in Python). A character is a code point below
  256. Floating-point numbers are left out of the value type.
\<close>

datatype json =
    JNull
  | JBool bool
  | JInt int
  | JStr string
  | JList "json list"
  | JObj "(string \<times> json) list"

type_synonym dict = "(string \<times> json) list"

datatype py_error =
    KeyError
  | TypeError
  | AttributeError
  | UndefinedError
  | TemplateError string

text \<open>\<^verbatim>\<open>d.get(k)\<close> and \<^verbatim>\<open>d.get(k, default)\<close>.\<close>

definition dict_get :: "dict \<Rightarrow> string \<Rightarrow> json" where
  "dict_get d k = (case map_of d k of None \<Rightarrow> JNull | Some v \<Rightarrow> v)"

definition dict_get_default :: "dict \<Rightarrow> string \<Rightarrow> json \<Rightarrow> json" where
  "dict_get_default d k dflt = (case map_of d k of None \<Rightarrow> dflt | Some v \<Rightarrow> v)"

text \<open>\<^verbatim>\<open>d[k]\<close> raises \<^verbatim>\<open>KeyError\<close> on a missing key.\<close>

definition dict_item :: "dict \<Rightarrow> string \<Rightarrow> py_error + json" where
  "dict_item d k = (case map_of d k of None \<Rightarrow> Inl KeyError | Some v \<Rightarrow> Inr v)"

text \<open>\<^verbatim>\<open>{**a, **b}\<close> and \<^verbatim>\<open>a.update(b)\<close>: the items of \<open>b\<close> are written into \<open>a\<close> in order.\<close>

fun dict_update_all :: "dict \<Rightarrow> dict \<Rightarrow> dict" where
  "dict_update_all d [] = d"
| "dict_update_all d ((k, v) # kvs) = dict_update_all (AList.update k v d) kvs"

text \<open>Truthiness of a value, as tested by \<^verbatim>\<open>if x:\<close> and \<^verbatim>\<open>x or y\<close>.\<close>

fun py_truthy :: "json \<Rightarrow> bool" where
  "py_truthy JNull = False"
| "py_truthy (JBool b) = b"
| "py_truthy (JInt n) = (n \<noteq> 0)"
| "py_truthy (JStr s) = (s \<noteq> [])"
| "py_truthy (JList xs) = (xs \<noteq> [])"
| "py_truthy (JObj kvs) = (kvs \<noteq> [])"

definition py_or :: "json \<Rightarrow> json \<Rightarrow> json" where
  "py_or x y = (if py_truthy x then x else y)"

text \<open>Numbers: \<^verbatim>\<open>bool\<close> is a subclass of \<^verbatim>\<open>int\<close>.\<close>

fun py_num :: "json \<Rightarrow> int option" where
  "py_num (JInt n) = Some n"
| "py_num (JBool b) = Some (if b then 1 else 0)"
| "py_num _ = None"

text \<open>The operator \<^verbatim>\<open>+\<close> on two values.\<close>

fun py_add :: "json \<Rightarrow> json \<Rightarrow> py_error + json" where
  "py_add (JList xs) (JList ys) = Inr (JList (xs @ ys))"
| "py_add (JStr s) (JStr t) = Inr (JStr (s @ t))"
| "py_add x y =
     (case (py_num x, py_num y) of
        (Some m, Some n) \<Rightarrow> Inr (JInt (m + n))
      | _ \<Rightarrow> Inl TypeError)"

subsection \<open>\<^verbatim>\<open>sorted(set(xs))\<close>\<close>

text \<open>
  \<^verbatim>\<open>set(xs)\<close> raises \<^verbatim>\<open>TypeError\<close> when an element is a list or a dictionary (they are
  unhashable), and keeps one element of each class of equal values (\<^verbatim>\<open>True == 1\<close>).
  \<^verbatim>\<open>sorted\<close> raises \<^verbatim>\<open>TypeError\<close> when it has to compare two values that are not both
  numbers or both strings.
\<close>

fun py_hashable :: "json \<Rightarrow> bool" where
  "py_hashable (JList _) = False"
| "py_hashable (JObj _) = False"
| "py_hashable _ = True"

definition py_eq_scalar :: "json \<Rightarrow> json \<Rightarrow> bool" where
  "py_eq_scalar a b =
     (case (py_num a, py_num b) of
        (Some m, Some n) \<Rightarrow> m = n
      | (None, None) \<Rightarrow> a = b
      | _ \<Rightarrow> False)"

fun py_set_add :: "json list \<Rightarrow> json \<Rightarrow> json list" where
  "py_set_add seen x = (if list_ex (py_eq_scalar x) seen then seen else seen @ [x])"

definition py_set :: "json list \<Rightarrow> py_error + json list" where
  "py_set xs = (if list_all py_hashable xs then Inr (foldl py_set_add [] xs) else Inl TypeError)"

fun is_num :: "json \<Rightarrow> bool" where
  "is_num (JInt _) = True"
| "is_num (JBool _) = True"
| "is_num _ = False"

fun is_str :: "json \<Rightarrow> bool" where
  "is_str (JStr _) = True"
| "is_str _ = False"

fun str_of :: "json \<Rightarrow> string" where
  "str_of (JStr s) = s"
| "str_of _ = []"

definition py_sorted :: "json list \<Rightarrow> py_error + json list" where
  "py_sorted xs =
     (if length xs \<le> 1 then Inr xs
      else if list_all is_num xs then Inr (sort_key (\<lambda>v. case py_num v of Some n \<Rightarrow> n | None \<Rightarrow> 0) xs)
      else if list_all is_str xs then Inr (map JStr (sort (map str_of xs)))
      else Inl TypeError)"

definition py_sorted_set :: "json list \<Rightarrow> py_error + json list" where
  "py_sorted_set xs = (case py_set xs of Inl e \<Rightarrow> Inl e | Inr ys \<Rightarrow> py_sorted ys)"

section \<open>The parameter merger\<close>

text \<open>
  \<^verbatim>\<open>logger.warning\<close> is modelled by the list of warnings the call has emitted so far.
\<close>

datatype warning =
    ParamIgnored string
  | PromptTruncated int int int int

text \<open>
  \<^verbatim>\<open>BedrockModelChatAdapter._update_params\<close>: the loop over \<^verbatim>\<open>updates_dict.items()\<close>.
  The target dictionary is mutated in place in the source and returned here.
\<close>

fun update_params :: "dict \<Rightarrow> dict \<Rightarrow> string list \<Rightarrow> warning list \<Rightarrow> py_error + (dict \<times> warning list)" where
  "update_params target_dict [] allowed_params log = Inr (target_dict, log)"
| "update_params target_dict ((key, val) # rest) allowed_params log =
     (if key \<notin> set allowed_params
      then update_params target_dict rest allowed_params (log @ [ParamIgnored key])
      else (case (map_of target_dict key, val) of
              (Some (JList old), JList new) \<Rightarrow>
                (case py_sorted_set (old @ new) of
                   Inl e \<Rightarrow> Inl e
                 | Inr merged \<Rightarrow>
                     update_params (AList.update key (JList merged) target_dict) rest allowed_params log)
            | _ \<Rightarrow> update_params (AList.update key val target_dict) rest allowed_params log))"

text \<open>
  The value one pass of that loop writes at an allowed key: the merged list when the
  target holds a list there and the update is a list, the update otherwise.
\<close>

definition merged_value :: "dict \<Rightarrow> string \<Rightarrow> json \<Rightarrow> py_error + json" where
  "merged_value target_dict key val =
     (case (map_of target_dict key, val) of
        (Some (JList old), JList new) \<Rightarrow>
          (case py_sorted_set (old @ new) of Inl e \<Rightarrow> Inl e | Inr merged \<Rightarrow> Inr (JList merged))
      | _ \<Rightarrow> Inr val)"

text \<open>
  \<^verbatim>\<open>BedrockModelChatAdapter._get_params\<close>: the defaults, then the adapter's
  \<^verbatim>\<open>generation_kwargs\<close>, then the call's \<^verbatim>\<open>inference_kwargs\<close>.
\<close>

definition get_params :: "dict \<Rightarrow> dict \<Rightarrow> dict \<Rightarrow> string list \<Rightarrow> py_error + (dict \<times> warning list)" where
  "get_params generation_kwargs inference_kwargs default_params allowed_params =
     (case update_params default_params generation_kwargs allowed_params [] of
        Inl e \<Rightarrow> Inl e
      | Inr (kwargs, log) \<Rightarrow> update_params kwargs inference_kwargs allowed_params log)"

section \<open>Chat messages\<close>

text \<open>
  \<^verbatim>\<open>ChatRole\<close> and \<^verbatim>\<open>ChatMessage\<close> of the pipeline framework. The content of a message
  is declared \<^verbatim>\<open>str\<close>; a message built from a backend response carries whatever value
  the response holds, so the type of the content is a parameter: \<open>string\<close> for the
  messages of a conversation, \<^typ>\<open>json\<close> for the messages read from a response. The
  roles are the three of the spec; the optional name of a message, which the adapters
  never read, is left out.
\<close>

datatype chat_role = SYSTEM | USER | ASSISTANT

fun role_value :: "chat_role \<Rightarrow> string" where
  "role_value SYSTEM = ''system''"
| "role_value USER = ''user''"
| "role_value ASSISTANT = ''assistant''"

record 'c chat_message =
  role :: chat_role
  content :: 'c
  meta :: dict

definition from_assistant :: "'c \<Rightarrow> dict \<Rightarrow> 'c chat_message" where
  "from_assistant c m = \<lparr>role = ASSISTANT, content = c, meta = m\<rparr>"

definition from_user :: "'c \<Rightarrow> 'c chat_message" where
  "from_user c = \<lparr>role = USER, content = c, meta = []\<rparr>"

definition from_system :: "'c \<Rightarrow> 'c chat_message" where
  "from_system c = \<lparr>role = SYSTEM, content = c, meta = []\<rparr>"

section \<open>Strings\<close>

text \<open>
  \<^verbatim>\<open>str.lstrip()\<close> and \<^verbatim>\<open>str.strip()\<close> remove the characters for which
  \<^verbatim>\<open>str.isspace\<close> holds; below code point 256 these are 9 to 13, 28 to 32, 133 and 160.
\<close>

definition py_isspace :: "char \<Rightarrow> bool" where
  "py_isspace c =
     (let n = (of_char c :: nat)
      in (9 \<le> n \<and> n \<le> 13) \<or> (28 \<le> n \<and> n \<le> 32) \<or> n = 133 \<or> n = 160)"

definition py_lstrip :: "string \<Rightarrow> string" where
  "py_lstrip s = dropWhile py_isspace s"

definition py_strip :: "string \<Rightarrow> string" where
  "py_strip s = rev (dropWhile py_isspace (rev (dropWhile py_isspace s)))"

section \<open>The prompt handler\<close>

text \<open>
  The tokenizer is an external capability: \<open>encode\<close> gives the token ids of a text,
  \<open>decode\<close> the text of a sequence of ids, and \<open>bos_token\<close> and \<open>eos_token\<close> are the
  markers a chat template may use.
\<close>

record 'tok tokenizer =
  encode :: "string \<Rightarrow> 'tok list"
  decode :: "'tok list \<Rightarrow> string"
  bos_token :: string
  eos_token :: string

record 'tok prompt_handler =
  tokenizer :: "'tok tokenizer"
  model_max_length :: json
  max_length :: json

record resize_info =
  resized_prompt :: string
  prompt_length :: int
  new_prompt_length :: int
  info_max_length :: int
  info_model_max_length :: int

text \<open>
  Modelled from the spec: \<^verbatim>\<open>DefaultPromptHandler.__call__\<close> of the module
  \<^verbatim>\<open>amazon_bedrock.handlers\<close>, which the adapters import and call through
  \<^verbatim>\<open>check_prompt\<close>. The spec's words: encode the prompt, compute
  \<^verbatim>\<open>new_prompt_length = min(prompt_length, model_max_length - max_length)\<close>, truncate
  the id sequence to that length if shorter, decode back; if no truncation is needed the
  resized prompt is the prompt. The two lengths of the handler are the values the
  adapter's constructor stored; arithmetic on a value that is not a number raises
  \<^verbatim>\<open>TypeError\<close>.
\<close>

definition default_prompt_handler_call :: "'tok prompt_handler \<Rightarrow> string \<Rightarrow> py_error + resize_info" where
  "default_prompt_handler_call h prompt =
     (case (py_num (model_max_length h), py_num (max_length h)) of
        (Some mml, Some ml) \<Rightarrow>
          (let ids = encode (tokenizer h) prompt;
               pl = int (length ids);
               npl = min pl (mml - ml)
           in Inr \<lparr>resized_prompt =
                      (if npl < pl then decode (tokenizer h) (take (nat npl) ids) else prompt),
                    prompt_length = pl,
                    new_prompt_length = npl,
                    info_max_length = ml,
                    info_model_max_length = mml\<rparr>)
      | _ \<Rightarrow> Inl TypeError)"

section \<open>The adapter base class\<close>

text \<open>
  The state of an adapter: the fields \<^verbatim>\<open>truncate\<close>, \<^verbatim>\<open>generation_kwargs\<close> and
  \<^verbatim>\<open>prompt_handler\<close> set by the constructors.
\<close>

record 'tok adapter =
  truncate_opt :: "bool option"
  generation_kwargs :: dict
  prompt_handler :: "'tok prompt_handler"

text \<open>\<^verbatim>\<open>check_prompt\<close>, the same in the three adapters: \<^verbatim>\<open>self.prompt_handler(prompt)\<close>.\<close>

definition check_prompt :: "'tok adapter \<Rightarrow> string \<Rightarrow> py_error + resize_info" where
  "check_prompt a prompt = default_prompt_handler_call (prompt_handler a) prompt"

text \<open>\<^verbatim>\<open>BedrockModelChatAdapter._ensure_token_limit\<close>.\<close>

definition ensure_token_limit :: "'tok adapter \<Rightarrow> string \<Rightarrow> py_error + (string \<times> warning list)" where
  "ensure_token_limit a prompt =
     (case check_prompt a prompt of
        Inl e \<Rightarrow> Inl e
      | Inr resize_info \<Rightarrow>
          Inr (resized_prompt resize_info,
               if prompt_length resize_info \<noteq> new_prompt_length resize_info
               then [PromptTruncated (prompt_length resize_info)
                       (max 0 (info_model_max_length resize_info - info_max_length resize_info))
                       (info_max_length resize_info)
                       (info_model_max_length resize_info)]
               else []))"

text \<open>\<^verbatim>\<open>if self.truncate:\<close> on an \<^verbatim>\<open>Optional[bool]\<close>.\<close>

definition truncate_on :: "'tok adapter \<Rightarrow> bool" where
  "truncate_on a = (truncate_opt a = Some True)"

text \<open>\<^verbatim>\<open>self._get_params\<close>: the merger with the adapter's own \<^verbatim>\<open>generation_kwargs\<close>.\<close>

definition adapter_get_params :: "'tok adapter \<Rightarrow> dict \<Rightarrow> dict \<Rightarrow> string list \<Rightarrow> py_error + (dict \<times> warning list)" where
  "adapter_get_params a inference_kwargs default_params allowed_params =
     get_params (generation_kwargs a) inference_kwargs default_params allowed_params"

section \<open>The Anthropic Claude adapter\<close>

definition anthropic_ALLOWED_PARAMS :: "string list" where
  "anthropic_ALLOWED_PARAMS =
     [''anthropic_version'', ''max_tokens'', ''stop_sequences'', ''temperature'', ''top_p'',
      ''top_k'', ''system'', ''tools'', ''tool_choice'']"

text \<open>
  \<^verbatim>\<open>AnthropicClaudeChatAdapter.__init__\<close>. The tokenizer the handler loads by its name
  \<^verbatim>\<open>"gpt2"\<close> is a parameter.
\<close>

definition anthropic_init :: "bool option \<Rightarrow> dict \<Rightarrow> 'tok tokenizer \<Rightarrow> 'tok adapter" where
  "anthropic_init truncate_arg generation_kwargs_arg tok =
     (let mml = dict_get_default generation_kwargs_arg ''model_max_length'' (JInt 100000);
          kwargs = AList.delete ''model_max_length'' generation_kwargs_arg
      in \<lparr>truncate_opt = truncate_arg,
          generation_kwargs = kwargs,
          prompt_handler =
            \<lparr>tokenizer = tok,
             model_max_length = mml,
             max_length = py_or (dict_get kwargs ''max_tokens'') (JInt 512)\<rparr>\<rparr>)"

text \<open>\<^verbatim>\<open>AnthropicClaudeChatAdapter._to_anthropic_message\<close>.\<close>

definition to_anthropic_message :: "string chat_message \<Rightarrow> json" where
  "to_anthropic_message m =
     JObj [(''content'', JList [JObj [(''type'', JStr ''text''), (''text'', JStr (content m))]]),
           (''role'', JStr (role_value (role m)))]"

text \<open>
  The truncation loop of \<^verbatim>\<open>prepare_chat_messages\<close> replaces the text of the one content
  block of every prepared message by \<^verbatim>\<open>self._ensure_token_limit\<close> of it. The model
  resizes the text of each kept message, in order, before the message is wrapped.
\<close>

fun ensure_messages_limit ::
  "'tok adapter \<Rightarrow> string chat_message list \<Rightarrow> py_error + (string chat_message list \<times> warning list)" where
  "ensure_messages_limit a [] = Inr ([], [])"
| "ensure_messages_limit a (m # ms) =
     (case ensure_token_limit a (content m) of
        Inl e \<Rightarrow> Inl e
      | Inr (text, w) \<Rightarrow>
          (case ensure_messages_limit a ms of
             Inl e \<Rightarrow> Inl e
           | Inr (ms', w') \<Rightarrow> Inr (m\<lparr>content := text\<rparr> # ms', w @ w')))"

text \<open>\<^verbatim>\<open>AnthropicClaudeChatAdapter.prepare_chat_messages\<close>.\<close>

definition anthropic_prepare_chat_messages ::
  "'tok adapter \<Rightarrow> string chat_message list \<Rightarrow> py_error + (dict \<times> warning list)" where
  "anthropic_prepare_chat_messages a messages =
     (let system = (case messages of
                      [] \<Rightarrow> None
                    | m # _ \<Rightarrow> if role m = SYSTEM then Some (content m) else None);
          kept = filter (\<lambda>m. role m = USER \<or> role m = ASSISTANT) messages;
          system_entry = (case system of
                            None \<Rightarrow> []
                          | Some s \<Rightarrow> if s \<noteq> [] then [(''system'', JStr s)] else [])
      in if truncate_on a
         then (case ensure_messages_limit a kept of
                 Inl e \<Rightarrow> Inl e
               | Inr (resized, w) \<Rightarrow>
                   Inr ([(''messages'', JList (map to_anthropic_message resized))] @ system_entry, w))
         else Inr ([(''messages'', JList (map to_anthropic_message kept))] @ system_entry, []))"

text \<open>
  \<^verbatim>\<open>AnthropicClaudeChatAdapter.prepare_body\<close>. The result is the body together with the
  warnings logged on the way.
\<close>

definition anthropic_prepare_body ::
  "'tok adapter \<Rightarrow> string chat_message list \<Rightarrow> dict \<Rightarrow> py_error + (dict \<times> warning list)" where
  "anthropic_prepare_body a messages inference_kwargs =
     (let default_params =
            [(''anthropic_version'',
                py_or (dict_get (generation_kwargs a) ''anthropic_version'') (JStr ''bedrock-2023-05-31'')),
             (''max_tokens'', py_or (dict_get (generation_kwargs a) ''max_tokens'') (JInt 512))]
      in case py_add (dict_get_default inference_kwargs ''stop_sequences'' (JList []))
                     (dict_get_default inference_kwargs ''stop_words'' (JList [])) of
           Inl e \<Rightarrow> Inl e
         | Inr stop_sequences \<Rightarrow>
             (let kwargs1 = AList.delete ''stop_words'' inference_kwargs;
                  kwargs2 = (if py_truthy stop_sequences
                             then AList.update ''stop_sequences'' stop_sequences kwargs1
                             else kwargs1);
                  kwargs3 = AList.delete ''stream'' kwargs2
              in case adapter_get_params a kwargs3 default_params anthropic_ALLOWED_PARAMS of
                   Inl e \<Rightarrow> Inl e
                 | Inr (params, w1) \<Rightarrow>
                     (case anthropic_prepare_chat_messages a messages of
                        Inl e \<Rightarrow> Inl e
                      | Inr (chat, w2) \<Rightarrow> Inr (dict_update_all chat params, w1 @ w2))))"

subsection \<open>Reading an Anthropic response\<close>

text \<open>
  \<^verbatim>\<open>for x in v\<close>: a list gives its elements, a string its characters, a dictionary its
  keys; any other value is not iterable.
\<close>

fun py_iter :: "json \<Rightarrow> py_error + json list" where
  "py_iter (JList xs) = Inr xs"
| "py_iter (JStr s) = Inr (map (\<lambda>c. JStr [c]) s)"
| "py_iter (JObj kvs) = Inr (map (\<lambda>kv. JStr (fst kv)) kvs)"
| "py_iter _ = Inl TypeError"

definition response_meta :: "dict \<Rightarrow> dict" where
  "response_meta response_body =
     filter (\<lambda>kv. fst kv \<notin> set [''type'', ''content'', ''role'']) response_body"

text \<open>
  The two loops of \<^verbatim>\<open>_extract_messages_from_response\<close>; \<open>messages\<close> is the list the
  source appends to. \<^verbatim>\<open>json.dumps\<close> is the parameter \<open>dumps\<close>. \<^verbatim>\<open>content.get\<close> on a
  value that is not a dictionary raises \<^verbatim>\<open>AttributeError\<close>.
\<close>

fun tool_use_loop ::
  "(json \<Rightarrow> string) \<Rightarrow> dict \<Rightarrow> json list \<Rightarrow> json chat_message list \<Rightarrow> py_error + json chat_message list" where
  "tool_use_loop dumps response_body [] messages = Inr messages"
| "tool_use_loop dumps response_body (c # cs) messages =
     (case c of
        JObj kvs \<Rightarrow>
          (if dict_get kvs ''type'' = JStr ''tool_use''
           then tool_use_loop dumps response_body cs
                  (messages @ [from_assistant (JStr (dumps c)) (response_meta response_body)])
           else tool_use_loop dumps response_body cs messages)
      | _ \<Rightarrow> Inl AttributeError)"

fun text_loop ::
  "dict \<Rightarrow> json list \<Rightarrow> json chat_message list \<Rightarrow> py_error + json chat_message list" where
  "text_loop response_body [] messages = Inr messages"
| "text_loop response_body (c # cs) messages =
     (case c of
        JObj kvs \<Rightarrow>
          (if dict_get kvs ''type'' = JStr ''text''
           then (case dict_item kvs ''text'' of
                   Inl e \<Rightarrow> Inl e
                 | Inr t \<Rightarrow>
                     text_loop response_body cs
                       (messages @ [from_assistant t (response_meta response_body)]))
           else text_loop response_body cs messages)
      | _ \<Rightarrow> Inl AttributeError)"

definition content_blocks :: "dict \<Rightarrow> py_error + json list" where
  "content_blocks response_body =
     (case dict_item response_body ''content'' of Inl e \<Rightarrow> Inl e | Inr c \<Rightarrow> py_iter c)"

definition anthropic_extract_messages_from_response ::
  "(json \<Rightarrow> string) \<Rightarrow> dict \<Rightarrow> py_error + json chat_message list" where
  "anthropic_extract_messages_from_response dumps response_body =
     (if dict_get response_body ''type'' = JStr ''message''
      then (if dict_get response_body ''stop_reason'' = JStr ''tool_use''
            then (case content_blocks response_body of
                    Inl e \<Rightarrow> Inl e
                  | Inr cs \<Rightarrow> tool_use_loop dumps response_body cs [])
            else (case content_blocks response_body of
                    Inl e \<Rightarrow> Inl e
                  | Inr cs \<Rightarrow> text_loop response_body cs []))
      else Inr [])"

section \<open>The Mistral adapter\<close>

definition mistral_ALLOWED_PARAMS :: "string list" where
  "mistral_ALLOWED_PARAMS = [''max_tokens'', ''safe_prompt'', ''random_seed'', ''temperature'', ''top_p'']"

text \<open>
  The chat templates are Jinja programs, rendered by the tokenizer's
  \<^verbatim>\<open>apply_chat_template\<close> with the tokenizer's \<^verbatim>\<open>bos_token\<close> and \<^verbatim>\<open>eos_token\<close>. The
  functions below are the templates, statement by statement. \<^verbatim>\<open>raise_exception\<close> ends
  the rendering with a template error; \<^verbatim>\<open>messages[0]['role']\<close> on an empty list is an
  undefined-value error.
\<close>

definition alternation_error :: py_error where
  "alternation_error =
     TemplateError ''Conversation roles must alternate user/assistant/user/assistant/...''"

text \<open>
  The body of the \<^verbatim>\<open>for\<close> loop of \<^verbatim>\<open>MistralChatAdapter.chat_template\<close>; \<open>index0\<close> is
  \<^verbatim>\<open>loop.index0\<close>. The template text is a triple-quoted Python string whose lines are
  stripped and joined: the escape \<^verbatim>\<open>\n\<close> between the system message and the content
  is a line break of that string, so the joined template reads
  \<^verbatim>\<open>system_message + '' + message['content']\<close>.
\<close>

fun mistral_template_loop ::
  "string option \<Rightarrow> string \<Rightarrow> nat \<Rightarrow> string chat_message list \<Rightarrow> py_error + string" where
  "mistral_template_loop system_message eos index0 [] = Inr []"
| "mistral_template_loop system_message eos index0 (message # rest) =
     (if (role_value (role message) = ''user'') \<noteq> (index0 mod 2 = 0)
      then Inl alternation_error
      else (let c = (case system_message of
                       Some s \<Rightarrow> if index0 = 0 then s @ [] @ content message else content message
                     | None \<Rightarrow> content message);
                piece = (if role_value (role message) = ''user''
                         then ''[INST] '' @ py_strip c @ '' [/INST]''
                         else if role_value (role message) = ''assistant''
                         then py_strip c @ eos
                         else [])
            in case mistral_template_loop system_message eos (Suc index0) rest of
                 Inl e \<Rightarrow> Inl e
               | Inr out \<Rightarrow> Inr (piece @ out)))"

definition mistral_chat_template ::
  "string \<Rightarrow> string \<Rightarrow> string chat_message list \<Rightarrow> py_error + string" where
  "mistral_chat_template bos eos messages =
     (case messages of
        [] \<Rightarrow> Inl UndefinedError
      | m # ms \<Rightarrow>
          (let loop_messages = (if role_value (role m) = ''system'' then ms else messages);
               system_message = (if role_value (role m) = ''system'' then Some (content m) else None)
           in case mistral_template_loop system_message eos 0 loop_messages of
                Inl e \<Rightarrow> Inl e
              | Inr out \<Rightarrow> Inr (bos @ out)))"

text \<open>
  \<^verbatim>\<open>MistralChatAdapter.__init__\<close>; the tokenizer loaded from the hub is a parameter.
\<close>

definition mistral_init :: "bool option \<Rightarrow> dict \<Rightarrow> 'tok tokenizer \<Rightarrow> 'tok adapter" where
  "mistral_init truncate_arg generation_kwargs_arg tok =
     (let mml = dict_get_default generation_kwargs_arg ''model_max_length'' (JInt 32000);
          kwargs = AList.delete ''model_max_length'' generation_kwargs_arg
      in \<lparr>truncate_opt = truncate_arg,
          generation_kwargs = kwargs,
          prompt_handler =
            \<lparr>tokenizer = tok,
             model_max_length = mml,
             max_length = py_or (dict_get kwargs ''max_tokens'') (JInt 512)\<rparr>\<rparr>)"

text \<open>\<^verbatim>\<open>MistralChatAdapter.prepare_chat_messages\<close>.\<close>

definition mistral_prepare_chat_messages ::
  "'tok adapter \<Rightarrow> string chat_message list \<Rightarrow> py_error + (string \<times> warning list)" where
  "mistral_prepare_chat_messages a messages =
     (case mistral_chat_template (bos_token (tokenizer (prompt_handler a)))
             (eos_token (tokenizer (prompt_handler a))) messages of
        Inl e \<Rightarrow> Inl e
      | Inr prepared_prompt \<Rightarrow>
          if truncate_on a then ensure_token_limit a prepared_prompt
          else Inr (prepared_prompt, []))"

text \<open>\<^verbatim>\<open>MistralChatAdapter.prepare_body\<close>.\<close>

definition mistral_prepare_body ::
  "'tok adapter \<Rightarrow> string chat_message list \<Rightarrow> dict \<Rightarrow> py_error + (dict \<times> warning list)" where
  "mistral_prepare_body a messages inference_kwargs =
     (let default_params =
            [(''max_tokens'', py_or (dict_get (generation_kwargs a) ''max_tokens'') (JInt 512))];
          stop_words = dict_get_default inference_kwargs ''stop_words'' (JList []);
          kwargs1 = AList.delete ''stop_words'' inference_kwargs;
          kwargs2 = (if py_truthy stop_words then AList.update ''stop'' stop_words kwargs1 else kwargs1);
          kwargs3 = AList.delete ''stream'' kwargs2
      in case adapter_get_params a kwargs3 default_params mistral_ALLOWED_PARAMS of
           Inl e \<Rightarrow> Inl e
         | Inr (params, w1) \<Rightarrow>
             (case mistral_prepare_chat_messages a messages of
                Inl e \<Rightarrow> Inl e
              | Inr (prompt, w2) \<Rightarrow>
                  Inr (dict_update_all [(''prompt'', JStr prompt)] params, w1 @ w2)))"

text \<open>\<^verbatim>\<open>MistralChatAdapter._extract_messages_from_response\<close>.\<close>

fun mistral_outputs_loop ::
  "json list \<Rightarrow> json chat_message list \<Rightarrow> py_error + json chat_message list" where
  "mistral_outputs_loop [] messages = Inr messages"
| "mistral_outputs_loop (r # rs) messages =
     (case r of
        JObj kvs \<Rightarrow>
          (case dict_item kvs ''text'' of
             Inl e \<Rightarrow> Inl e
           | Inr t \<Rightarrow>
               mistral_outputs_loop rs
                 (messages @ [from_assistant t (filter (\<lambda>kv. fst kv \<notin> set [''text'']) kvs)]))
      | _ \<Rightarrow> Inl AttributeError)"

definition mistral_extract_messages_from_response :: "dict \<Rightarrow> py_error + json chat_message list" where
  "mistral_extract_messages_from_response response_body =
     (case py_iter (dict_get_default response_body ''outputs'' (JList [])) of
        Inl e \<Rightarrow> Inl e
      | Inr responses \<Rightarrow> mistral_outputs_loop responses [])"

section \<open>The Meta Llama 2 adapter\<close>

definition llama2_ALLOWED_PARAMS :: "string list" where
  "llama2_ALLOWED_PARAMS = [''max_gen_len'', ''temperature'', ''top_p'']"

text \<open>The body of the \<^verbatim>\<open>for\<close> loop of \<^verbatim>\<open>MetaLlama2ChatAdapter.chat_template\<close>.\<close>

fun llama2_template_loop ::
  "string option \<Rightarrow> string \<Rightarrow> string \<Rightarrow> nat \<Rightarrow> string chat_message list \<Rightarrow> py_error + string" where
  "llama2_template_loop system_message bos eos index0 [] = Inr []"
| "llama2_template_loop system_message bos eos index0 (message # rest) =
     (if (role_value (role message) = ''user'') \<noteq> (index0 mod 2 = 0)
      then Inl alternation_error
      else (let c = (case system_message of
                       Some s \<Rightarrow>
                         if index0 = 0
                         then ''<<SYS>>'' @ [CHR 0x0A] @ s @ [CHR 0x0A] @ ''<</SYS>>''
                              @ [CHR 0x0A, CHR 0x0A] @ content message
                         else content message
                     | None \<Rightarrow> content message);
                piece = (if role_value (role message) = ''user''
                         then bos @ ''[INST] '' @ py_strip c @ '' [/INST]''
                         else if role_value (role message) = ''assistant''
                         then '' '' @ py_strip c @ '' '' @ eos
                         else [])
            in case llama2_template_loop system_message bos eos (Suc index0) rest of
                 Inl e \<Rightarrow> Inl e
               | Inr out \<Rightarrow> Inr (piece @ out)))"

definition llama2_chat_template ::
  "string \<Rightarrow> string \<Rightarrow> string chat_message list \<Rightarrow> py_error + string" where
  "llama2_chat_template bos eos messages =
     (case messages of
        [] \<Rightarrow> Inl UndefinedError
      | m # ms \<Rightarrow>
          (let loop_messages = (if role_value (role m) = ''system'' then ms else messages);
               system_message = (if role_value (role m) = ''system'' then Some (content m) else None)
           in llama2_template_loop system_message bos eos 0 loop_messages))"

text \<open>
  \<^verbatim>\<open>MetaLlama2ChatAdapter.__init__\<close>; the constructor sets the markers of the tokenizer
  it loaded.
\<close>

definition llama2_init :: "bool option \<Rightarrow> dict \<Rightarrow> 'tok tokenizer \<Rightarrow> 'tok adapter" where
  "llama2_init truncate_arg generation_kwargs_arg tok =
     (let mml = dict_get_default generation_kwargs_arg ''model_max_length'' (JInt 4096);
          kwargs = AList.delete ''model_max_length'' generation_kwargs_arg
      in \<lparr>truncate_opt = truncate_arg,
          generation_kwargs = kwargs,
          prompt_handler =
            \<lparr>tokenizer = tok\<lparr>bos_token := ''<s>'', eos_token := ''</s>''\<rparr>,
             model_max_length = mml,
             max_length = py_or (dict_get kwargs ''max_gen_len'') (JInt 512)\<rparr>\<rparr>)"

text \<open>\<^verbatim>\<open>MetaLlama2ChatAdapter.prepare_chat_messages\<close>.\<close>

definition llama2_prepare_chat_messages ::
  "'tok adapter \<Rightarrow> string chat_message list \<Rightarrow> py_error + (string \<times> warning list)" where
  "llama2_prepare_chat_messages a messages =
     (case llama2_chat_template (bos_token (tokenizer (prompt_handler a)))
             (eos_token (tokenizer (prompt_handler a))) messages of
        Inl e \<Rightarrow> Inl e
      | Inr prepared_prompt \<Rightarrow>
          if truncate_on a then ensure_token_limit a prepared_prompt
          else Inr (prepared_prompt, []))"

text \<open>\<^verbatim>\<open>MetaLlama2ChatAdapter.prepare_body\<close>.\<close>

definition llama2_prepare_body ::
  "'tok adapter \<Rightarrow> string chat_message list \<Rightarrow> dict \<Rightarrow> py_error + (dict \<times> warning list)" where
  "llama2_prepare_body a messages inference_kwargs =
     (let default_params =
            [(''max_gen_len'', py_or (dict_get (generation_kwargs a) ''max_gen_len'') (JInt 512))]
      in case adapter_get_params a inference_kwargs default_params llama2_ALLOWED_PARAMS of
           Inl e \<Rightarrow> Inl e
         | Inr (params, w1) \<Rightarrow>
             (case llama2_prepare_chat_messages a messages of
                Inl e \<Rightarrow> Inl e
              | Inr (prompt, w2) \<Rightarrow>
                  Inr (dict_update_all [(''prompt'', JStr prompt)] params, w1 @ w2)))"

text \<open>\<^verbatim>\<open>MetaLlama2ChatAdapter._extract_messages_from_response\<close>.\<close>

definition llama2_extract_messages_from_response :: "dict \<Rightarrow> py_error + json chat_message list" where
  "llama2_extract_messages_from_response response_body =
     (let metadata = filter (\<lambda>kv. fst kv \<noteq> ''generation'') response_body
      in case dict_item response_body ''generation'' of
           Inl e \<Rightarrow> Inl e
         | Inr g \<Rightarrow> Inr [from_assistant g metadata])"

section \<open>Responses and streams\<close>

datatype family = AnthropicClaude | Mistral | MetaLlama2

text \<open>
  \<^verbatim>\<open>BedrockModelChatAdapter.get_responses\<close>: the \<^verbatim>\<open>_extract_messages_from_response\<close> of
  the adapter's class.
\<close>

fun get_responses :: "(json \<Rightarrow> string) \<Rightarrow> family \<Rightarrow> dict \<Rightarrow> py_error + json chat_message list" where
  "get_responses dumps AnthropicClaude response_body =
     anthropic_extract_messages_from_response dumps response_body"
| "get_responses dumps Mistral response_body = mistral_extract_messages_from_response response_body"
| "get_responses dumps MetaLlama2 response_body = llama2_extract_messages_from_response response_body"

text \<open>
  \<^verbatim>\<open>StreamingChunk\<close>: its content is declared \<^verbatim>\<open>str\<close>, its meta is the decoded fragment.
\<close>

record streaming_chunk =
  chunk_content :: string
  chunk_meta :: dict

text \<open>
  An event of the stream either has no \<^verbatim>\<open>chunk\<close> entry (or a false one), or has a chunk
  whose bytes \<^verbatim>\<open>json.loads\<close> decodes to a dictionary; the event carries that dictionary.
  A stream is the finite list of the events it yields.
\<close>

datatype event = NoChunk | Chunk dict

text \<open>
  The loop of \<^verbatim>\<open>BedrockModelChatAdapter.get_stream_responses\<close>. The abstract method
  \<^verbatim>\<open>_build_streaming_chunk\<close> is the parameter \<open>build\<close>. The callback acts on the caller's
  state \<open>'s\<close>. The loop state is \<^verbatim>\<open>streaming_chunks\<close>, \<^verbatim>\<open>last_decoded_chunk\<close> and the
  caller's state.
\<close>

fun stream_loop ::
  "(dict \<Rightarrow> streaming_chunk) \<Rightarrow> (streaming_chunk \<Rightarrow> 's \<Rightarrow> 's) \<Rightarrow> event list \<Rightarrow>
   streaming_chunk list \<times> dict \<times> 's \<Rightarrow> streaming_chunk list \<times> dict \<times> 's" where
  "stream_loop build streaming_callback [] st = st"
| "stream_loop build streaming_callback (NoChunk # events) st =
     stream_loop build streaming_callback events st"
| "stream_loop build streaming_callback (Chunk payload # events) (streaming_chunks, last_decoded_chunk, s) =
     (let streaming_chunk = build payload
      in stream_loop build streaming_callback events
           (streaming_chunks @ [streaming_chunk], payload, streaming_callback streaming_chunk s))"

definition get_stream_responses ::
  "(dict \<Rightarrow> streaming_chunk) \<Rightarrow> (streaming_chunk \<Rightarrow> 's \<Rightarrow> 's) \<Rightarrow> event list \<Rightarrow> 's \<Rightarrow>
   string chat_message list \<times> 's" where
  "get_stream_responses build streaming_callback stream s0 =
     (case stream_loop build streaming_callback stream ([], [], s0) of
        (streaming_chunks, last_decoded_chunk, s) \<Rightarrow>
          (let responses = [py_lstrip (concat (map chunk_content streaming_chunks))]
           in (map (\<lambda>response. from_assistant response last_decoded_chunk) responses, s)))"

text \<open>
  \<^verbatim>\<open>MetaLlama2ChatAdapter._build_streaming_chunk\<close>, for a fragment whose
  \<^verbatim>\<open>generation\<close> field, when present, is a string.
\<close>

definition llama2_build_streaming_chunk :: "dict \<Rightarrow> streaming_chunk" where
  "llama2_build_streaming_chunk chunk =
     \<lparr>chunk_content = str_of (dict_get_default chunk ''generation'' (JStr [])),
      chunk_meta = chunk\<rparr>"

text \<open>A callback that records the chunks it is given, in order.\<close>

definition record_chunk :: "streaming_chunk \<Rightarrow> streaming_chunk list \<Rightarrow> streaming_chunk list" where
  "record_chunk c seen = seen @ [c]"

text \<open>The payloads of a stream, in arrival order.\<close>

fun payloads :: "event list \<Rightarrow> dict list" where
  "payloads [] = []"
| "payloads (NoChunk # events) = payloads events"
| "payloads (Chunk payload # events) = payload # payloads events"

section \<open>Vocabulary for the content blocks of a response\<close>

text \<open>
  A content block of an Anthropic response is a dictionary with a \<^verbatim>\<open>type\<close> field; these
  predicates say that a value is a dictionary, that its \<^verbatim>\<open>type\<close> field is a given
  string, that it has a given key, and \<open>block_text\<close> reads its \<^verbatim>\<open>text\<close> field.
\<close>

fun is_obj :: "json \<Rightarrow> bool" where
  "is_obj (JObj _) = True"
| "is_obj _ = False"

fun block_has_type :: "string \<Rightarrow> json \<Rightarrow> bool" where
  "block_has_type t (JObj kvs) = (dict_get kvs ''type'' = JStr t)"
| "block_has_type t _ = False"

fun block_has_key :: "string \<Rightarrow> json \<Rightarrow> bool" where
  "block_has_key k (JObj kvs) = (k \<in> fst ` set kvs)"
| "block_has_key k _ = False"

fun block_text :: "json \<Rightarrow> json" where
  "block_text (JObj kvs) = dict_get kvs ''text''"
| "block_text _ = JNull"

section \<open>Serialising a value\<close>

text \<open>
  \<^verbatim>\<open>json.dumps\<close> with its default arguments, for the values of the model: items are
  separated by a comma and a space, keys from values by a colon and a space, and in a
  string the quote, the backslash and every character outside the printable ASCII range
  are escaped. The adapters take the serialiser as the parameter \<open>dumps\<close>; this is the
  one the examples use.
\<close>

definition hex_digit :: "nat \<Rightarrow> char" where
  "hex_digit n = (if n < 10 then char_of (48 + n) else char_of (87 + n))"

definition escape_char :: "char \<Rightarrow> string" where
  "escape_char c =
     (let n = (of_char c :: nat)
      in if n = 34 then [CHR 0x5C, CHR 0x22]
         else if n = 92 then [CHR 0x5C, CHR 0x5C]
         else if n = 10 then [CHR 0x5C, CHR ''n'']
         else if n = 13 then [CHR 0x5C, CHR ''r'']
         else if n = 9 then [CHR 0x5C, CHR ''t'']
         else if n = 8 then [CHR 0x5C, CHR ''b'']
         else if n = 12 then [CHR 0x5C, CHR ''f'']
         else if 32 \<le> n \<and> n \<le> 126 then [c]
         else [CHR 0x5C, CHR ''u'', CHR ''0'', CHR ''0'', hex_digit (n div 16), hex_digit (n mod 16)])"

definition quote_string :: "string \<Rightarrow> string" where
  "quote_string s = [CHR 0x22] @ concat (map escape_char s) @ [CHR 0x22]"

fun nat_digits :: "nat \<Rightarrow> string" where
  "nat_digits n =
     (if n < 10 then [char_of (48 + n)] else nat_digits (n div 10) @ [char_of (48 + n mod 10)])"

definition int_digits :: "int \<Rightarrow> string" where
  "int_digits i = (if i < 0 then ''-'' @ nat_digits (nat (- i)) else nat_digits (nat i))"

fun join_with :: "string \<Rightarrow> string list \<Rightarrow> string" where
  "join_with sep [] = []"
| "join_with sep [x] = x"
| "join_with sep (x # y # ys) = x @ sep @ join_with sep (y # ys)"

primrec json_dumps :: "json \<Rightarrow> string" where
  "json_dumps JNull = ''null''"
| "json_dumps (JBool b) = (if b then ''true'' else ''false'')"
| "json_dumps (JInt i) = int_digits i"
| "json_dumps (JStr s) = quote_string s"
| "json_dumps (JList xs) = ''['' @ join_with '', '' (map json_dumps xs) @ '']''"
| "json_dumps (JObj kvs) =
     ''{'' @ join_with '', ''
              (map (\<lambda>kv. quote_string (fst kv) @ '': '' @ snd kv) (map (map_prod id json_dumps) kvs))
      @ ''}''"

section \<open>A tokenizer for the examples\<close>

text \<open>One token for each character of the text, and the markers of the Llama 2 tokenizer.\<close>

definition char_tokenizer :: "char tokenizer" where
  "char_tokenizer = \<lparr>encode = id, decode = id, bos_token = ''<s>'', eos_token = ''</s>''\<rparr>"

section \<open>Properties of the parameter merger\<close>

lemma update_params_allowed_step:
  "key \<in> set allowed_params \<Longrightarrow>
   update_params target_dict ((key, val) # rest) allowed_params log =
     (case merged_value target_dict key val of
        Inl e \<Rightarrow> Inl e
      | Inr v \<Rightarrow> update_params (AList.update key v target_dict) rest allowed_params log)"
  by (simp add: merged_value_def split: option.split json.split sum.split)

lemma update_params_ignored_step:
  "key \<notin> set allowed_params \<Longrightarrow>
   update_params target_dict ((key, val) # rest) allowed_params log =
     update_params target_dict rest allowed_params (log @ [ParamIgnored key])"
  by simp

lemma update_params_keys:
  "update_params target updates allowed log = Inr (result, log') \<Longrightarrow>
     fst ` set result = fst ` set target \<union> (fst ` set updates \<inter> set allowed)"
proof (induction updates arbitrary: target log)
  case Nil
  then show ?case by simp
next
  case (Cons kv rest)
  obtain key val where kv: "kv = (key, val)" by (cases kv)
  show ?case
  proof (cases "key \<in> set allowed")
    case False
    with Cons kv show ?thesis by (auto simp del: update_params.simps simp add: update_params_ignored_step)
  next
    case True
    with Cons.prems kv obtain v where
      "update_params (AList.update key v target) rest allowed log = Inr (result, log')"
      by (auto simp del: update_params.simps simp add: update_params_allowed_step split: sum.splits)
    from Cons.IH[OF this] True kv show ?thesis
      by (auto simp add: AList.dom_update)
  qed
qed

lemma update_params_log:
  "update_params target updates allowed log = Inr (result, log') \<Longrightarrow>
     log' = log @ map ParamIgnored (filter (\<lambda>k. k \<notin> set allowed) (map fst updates))"
proof (induction updates arbitrary: target log)
  case Nil
  then show ?case by simp
next
  case (Cons kv rest)
  obtain key val where kv: "kv = (key, val)" by (cases kv)
  show ?case
  proof (cases "key \<in> set allowed")
    case False
    with Cons.prems kv have "update_params target rest allowed (log @ [ParamIgnored key]) = Inr (result, log')"
      by (simp del: update_params.simps add: update_params_ignored_step)
    from Cons.IH[OF this] False kv show ?thesis by simp
  next
    case True
    with Cons.prems kv obtain v where
      "update_params (AList.update key v target) rest allowed log = Inr (result, log')"
      by (auto simp del: update_params.simps simp add: update_params_allowed_step split: sum.splits)
    from Cons.IH[OF this] True kv show ?thesis by simp
  qed
qed

lemma update_params_values_kept:
  "update_params target updates allowed log = Inr (result, log') \<Longrightarrow>
   k \<notin> set allowed \<or> k \<notin> fst ` set updates \<Longrightarrow>
   map_of result k = map_of target k"
proof (induction updates arbitrary: target log)
  case Nil
  then show ?case by simp
next
  case (Cons kv rest)
  obtain key val where kv: "kv = (key, val)" by (cases kv)
  from Cons.prems(2) kv have rest_k: "k \<notin> set allowed \<or> k \<notin> fst ` set rest" by auto
  show ?case
  proof (cases "key \<in> set allowed")
    case False
    with Cons.prems(1) kv
    have "update_params target rest allowed (log @ [ParamIgnored key]) = Inr (result, log')"
      by (simp del: update_params.simps add: update_params_ignored_step)
    from Cons.IH [OF this rest_k] show ?thesis .
  next
    case True
    with Cons.prems(1) kv obtain v where
      step: "update_params (AList.update key v target) rest allowed log = Inr (result, log')"
      by (auto simp del: update_params.simps simp add: update_params_allowed_step split: sum.splits)
    from True Cons.prems(2) kv have "k \<noteq> key" by auto
    with Cons.IH [OF step rest_k] show ?thesis by (simp add: AList.update_conv')
  qed
qed

text \<open>
  Claim C4, as the code has it. When \<^verbatim>\<open>_update_params\<close> returns, the keys of the result
  are the keys the target had before together with the allowed keys of the updates, and
  one warning is logged, in order, for every key of the updates outside the allowed
  list. At every key outside the allowed list the result holds what the target held
  before the merge (nothing, if the target had no such key): such a key of the updates
  is dropped, never merged, and such a key of the target is kept with its value. The
  same holds at every key the updates do not mention. So when every key of the target is
  allowed, every key of the result is.
\<close>

theorem update_params_allow_listing:
  assumes "update_params target updates allowed log = Inr (result, log')"
  shows "fst ` set result = fst ` set target \<union> (fst ` set updates \<inter> set allowed)
       \<and> log' = log @ map ParamIgnored (filter (\<lambda>k. k \<notin> set allowed) (map fst updates))
       \<and> (fst ` set target \<subseteq> set allowed \<longrightarrow> fst ` set result \<subseteq> set allowed)
       \<and> (\<forall>k. k \<notin> set allowed \<longrightarrow> map_of result k = map_of target k)
       \<and> (\<forall>k. k \<notin> fst ` set updates \<longrightarrow> map_of result k = map_of target k)"
proof -
  have keys: "fst ` set result = fst ` set target \<union> (fst ` set updates \<inter> set allowed)"
    using assms by (rule update_params_keys)
  moreover have "log' = log @ map ParamIgnored (filter (\<lambda>k. k \<notin> set allowed) (map fst updates))"
    using assms by (rule update_params_log)
  moreover have "fst ` set target \<subseteq> set allowed \<longrightarrow> fst ` set result \<subseteq> set allowed"
    using keys by auto
  moreover have "\<forall>k. k \<notin> set allowed \<longrightarrow> map_of result k = map_of target k"
    using update_params_values_kept [OF assms] by blast
  moreover have "\<forall>k. k \<notin> fst ` set updates \<longrightarrow> map_of result k = map_of target k"
    using update_params_values_kept [OF assms] by blast
  ultimately show ?thesis by blast
qed

theorem update_params_allow_listing_witness:
  "update_params [(''max_tokens'', JInt 512)] [(''foo'', JInt 1), (''temperature'', JInt 1)]
     [''max_tokens'', ''temperature''] []
     = Inr ([(''max_tokens'', JInt 512), (''temperature'', JInt 1)], [ParamIgnored ''foo''])
   \<and> fst ` set [(''max_tokens'', JInt 512)] \<subseteq> set [''max_tokens'', ''temperature'']
   \<and> fst ` set [(''max_tokens'', JInt 512), (''temperature'', JInt 1)]
       \<subseteq> set [''max_tokens'', ''temperature'']
   \<and> ''foo'' \<notin> set [''max_tokens'', ''temperature'']
   \<and> map_of [(''max_tokens'', JInt 512), (''temperature'', JInt 1)] ''foo''
       = map_of [(''max_tokens'', JInt 512)] ''foo''
   \<and> ''max_tokens'' \<notin> fst ` set [(''foo'', JInt 1), (''temperature'', JInt 1)]
   \<and> map_of [(''max_tokens'', JInt 512), (''temperature'', JInt 1)] ''max_tokens''
       = map_of [(''max_tokens'', JInt 512)] ''max_tokens''
   \<and> update_params [(''foo'', JInt 1)] [(''foo'', JInt 2)] [] []
     = Inr ([(''foo'', JInt 1)], [ParamIgnored ''foo''])
   \<and> ''foo'' \<notin> set ([] :: string list)
   \<and> map_of [(''foo'', JInt 1)] ''foo'' = Some (JInt 1)"
proof -
  have h: "update_params [(''max_tokens'', JInt 512)] [(''foo'', JInt 1), (''temperature'', JInt 1)]
     [''max_tokens'', ''temperature''] []
     = Inr ([(''max_tokens'', JInt 512), (''temperature'', JInt 1)], [ParamIgnored ''foo''])"
    by simp
  have sub: "fst ` set [(''max_tokens'', JInt 512)] \<subseteq> set [''max_tokens'', ''temperature'']"
    by simp
  have foo: "''foo'' \<notin> set [''max_tokens'', ''temperature'']" by simp
  have mt: "''max_tokens'' \<notin> fst ` set [(''foo'', JInt 1), (''temperature'', JInt 1)]" by simp
  have h2: "update_params [(''foo'', JInt 1)] [(''foo'', JInt 2)] [] []
     = Inr ([(''foo'', JInt 1)], [ParamIgnored ''foo''])"
    by simp
  have foo2: "''foo'' \<notin> set ([] :: string list)" by simp
  have val: "map_of [(''foo'', JInt 1)] ''foo'' = Some (JInt 1)" by simp
  from update_params_allow_listing [OF h] h sub foo mt h2 foo2 val show ?thesis by blast
qed

text \<open>
  The claim as it is worded fails where the target holds a key outside the allowed list:
  the merge of an allowed update into such a target returns a result with that key.
\<close>

theorem update_params_allow_listing_counterexample:
  "update_params [(''max_tokens'', JInt 512)] [(''temperature'', JInt 1)] [''temperature''] []
     = Inr ([(''max_tokens'', JInt 512), (''temperature'', JInt 1)], [])
   \<and> ''max_tokens'' \<in> fst ` set [(''max_tokens'', JInt 512), (''temperature'', JInt 1)]
   \<and> ''max_tokens'' \<notin> set [''temperature'']"
  by simp

text \<open>
  The same for \<^verbatim>\<open>_get_params\<close>: the keys of the merged parameters are the keys of the
  defaults and the allowed keys of the two sources, so with the defaults and the allowed
  list of an adapter every key of the result is allowed.
\<close>

lemma get_params_keys:
  assumes "get_params generation_kwargs_arg inference_kwargs default_params allowed = Inr (params, w)"
  shows "fst ` set params =
           fst ` set default_params
           \<union> ((fst ` set generation_kwargs_arg \<union> fst ` set inference_kwargs) \<inter> set allowed)"
proof -
  from assms obtain kwargs log where
    first: "update_params default_params generation_kwargs_arg allowed [] = Inr (kwargs, log)"
    and second: "update_params kwargs inference_kwargs allowed log = Inr (params, w)"
    by (auto simp: get_params_def split: sum.splits)
  from update_params_keys [OF first] update_params_keys [OF second] show ?thesis by auto
qed

subsection \<open>Lists merged by the merger\<close>

lemma py_eq_scalar_JStr [simp]: "py_eq_scalar (JStr a) (JStr b) = (a = b)"
  by (simp add: py_eq_scalar_def)

lemma py_set_add_strings:
  "foldl py_set_add (map JStr seen) (map JStr zs) =
     map JStr (foldl (\<lambda>acc x. if x \<in> set acc then acc else acc @ [x]) seen zs)"
proof (induction zs arbitrary: seen)
  case Nil
  then show ?case by simp
next
  case (Cons z zs)
  have "py_set_add (map JStr seen) (JStr z) = map JStr (if z \<in> set seen then seen else seen @ [z])"
    by (auto simp: list_ex_iff)
  then show ?case using Cons.IH by simp
qed

lemma first_occurrences_set:
  "set (foldl (\<lambda>acc x. if x \<in> set acc then acc else acc @ [x]) seen zs) = set seen \<union> set zs"
  by (induction zs arbitrary: seen) auto

lemma first_occurrences_distinct:
  "distinct seen \<Longrightarrow> distinct (foldl (\<lambda>acc x. if x \<in> set acc then acc else acc @ [x]) seen zs)"
  by (induction zs arbitrary: seen) auto

lemma py_sorted_strings: "py_sorted (map JStr ds) = Inr (map JStr (sort ds))"
proof (cases "length ds \<le> 1")
  case True
  then have "sort ds = ds" by (cases ds) (auto simp: le_Suc_eq)
  with True show ?thesis by (simp add: py_sorted_def)
next
  case False
  then obtain d ds' where "ds = d # ds'" by (cases ds) auto
  with False show ?thesis
    by (simp add: py_sorted_def list_all_iff comp_def)
qed

text \<open>On two lists of strings the merger gives the sorted list of their union, without duplicates.\<close>

lemma py_sorted_set_strings:
  "py_sorted_set (map JStr zs) = Inr (map JStr (sorted_list_of_set (set zs)))"
proof -
  let ?ds = "foldl (\<lambda>acc x. if x \<in> set acc then acc else acc @ [x]) [] zs"
  have "py_set (map JStr zs) = Inr (map JStr ?ds)"
    using py_set_add_strings [of "[]" zs] by (simp add: py_set_def list_all_iff)
  moreover have "sort ?ds = sorted_list_of_set (set zs)"
  proof -
    have "distinct ?ds" by (rule first_occurrences_distinct) simp
    then have "sort ?ds = sort (remdups ?ds)" by (simp add: distinct_remdups_id)
    also have "\<dots> = sorted_list_of_set (set ?ds)" by (simp add: sorted_list_of_set_sort_remdups)
    finally show ?thesis by (simp add: first_occurrences_set)
  qed
  ultimately show ?thesis by (simp add: py_sorted_set_def py_sorted_strings)
qed

lemma merged_value_strings:
  "map_of target_dict key = Some (JList (map JStr xs)) \<Longrightarrow>
   merged_value target_dict key (JList (map JStr ys)) =
     Inr (JList (map JStr (sorted_list_of_set (set xs \<union> set ys))))"
  using py_sorted_set_strings [of "xs @ ys"] by (simp add: merged_value_def)

lemma merged_value_overwrite:
  "\<not> (\<exists>old new. map_of target_dict key = Some (JList old) \<and> val = JList new) \<Longrightarrow>
   merged_value target_dict key val = Inr val"
  by (auto simp: merged_value_def split: option.splits json.splits)

text \<open>
  Claim C5 at a failing input. \<^verbatim>\<open>tools\<close> is an allowed parameter of the Anthropic adapter
  and its value is a list of dictionaries. When the target and the updates both hold
  such a list, \<^verbatim>\<open>sorted(set(...))\<close> raises \<^verbatim>\<open>TypeError\<close>, since a dictionary is not
  hashable: the merger returns no merged list, and \<^verbatim>\<open>prepare_body\<close> of an adapter
  constructed with \<^verbatim>\<open>tools\<close> and called with \<^verbatim>\<open>tools\<close> raises as well.
\<close>

theorem update_params_unhashable_lists:
  "update_params [(''tools'', JList [JObj [(''name'', JStr ''search'')]])]
       [(''tools'', JList [JObj [(''name'', JStr ''lookup'')]])] anthropic_ALLOWED_PARAMS []
     = Inl TypeError
   \<and> anthropic_prepare_body
       (anthropic_init None [(''tools'', JList [JObj [(''name'', JStr ''search'')]])] tok)
       [from_user ''Hi''] [(''tools'', JList [JObj [(''name'', JStr ''lookup'')]])]
     = Inl TypeError"
  by (simp add: anthropic_prepare_body_def anthropic_init_def adapter_get_params_def get_params_def
      dict_get_def dict_get_default_def py_or_def anthropic_ALLOWED_PARAMS_def py_sorted_set_def
      py_set_def)

section \<open>Properties of the prompt handler\<close>

text \<open>
  Claim C3. For a handler whose two lengths are numbers, \<^verbatim>\<open>check_prompt\<close> returns; the
  prompt length is the number of token ids of the prompt and the new prompt length is
  \<^verbatim>\<open>min(prompt_length, model_max_length - max_length)\<close>; the resized prompt is the decoded
  truncation of the ids when the new length is shorter and the prompt itself otherwise.
  When \<^verbatim>\<open>prompt_length + max_length <= model_max_length\<close> the resized prompt is the
  prompt; when \<^verbatim>\<open>prompt_length + max_length > model_max_length\<close> the new prompt length is
  \<^verbatim>\<open>model_max_length - max_length\<close>; the new prompt length is never more than the prompt
  length, and the truncated id sequence is never longer than the original one.
\<close>

theorem check_prompt_resize:
  assumes "py_num (model_max_length (prompt_handler a)) = Some mml"
      and "py_num (max_length (prompt_handler a)) = Some ml"
  shows "\<exists>info. check_prompt a prompt = Inr info
           \<and> prompt_length info = int (length (encode (tokenizer (prompt_handler a)) prompt))
           \<and> new_prompt_length info = min (prompt_length info) (mml - ml)
           \<and> resized_prompt info =
               (if new_prompt_length info < prompt_length info
                then decode (tokenizer (prompt_handler a))
                       (take (nat (new_prompt_length info)) (encode (tokenizer (prompt_handler a)) prompt))
                else prompt)
           \<and> (prompt_length info + ml \<le> mml \<longrightarrow> resized_prompt info = prompt)
           \<and> (prompt_length info + ml > mml \<longrightarrow> new_prompt_length info = mml - ml)
           \<and> new_prompt_length info \<le> prompt_length info
           \<and> length (take (nat (new_prompt_length info)) (encode (tokenizer (prompt_handler a)) prompt))
               \<le> length (encode (tokenizer (prompt_handler a)) prompt)"
  using assms by (simp add: check_prompt_def default_prompt_handler_call_def Let_def)

theorem check_prompt_resize_witness:
  "py_num (model_max_length (prompt_handler
       (anthropic_init None [(''model_max_length'', JInt 515)] char_tokenizer))) = Some 515
   \<and> py_num (max_length (prompt_handler
       (anthropic_init None [(''model_max_length'', JInt 515)] char_tokenizer))) = Some 512
   \<and> (\<exists>info. check_prompt (anthropic_init None [(''model_max_length'', JInt 515)] char_tokenizer) ''hello''
                 = Inr info
              \<and> prompt_length info = 5 \<and> prompt_length info + 512 > 515
              \<and> new_prompt_length info = 3 \<and> resized_prompt info = ''hel'')
   \<and> (\<exists>info. check_prompt (anthropic_init None [(''model_max_length'', JInt 515)] char_tokenizer) ''hi''
                 = Inr info
              \<and> prompt_length info = 2 \<and> prompt_length info + 512 \<le> 515
              \<and> new_prompt_length info = 2 \<and> resized_prompt info = ''hi'')"
proof -
  let ?a = "anthropic_init None [(''model_max_length'', JInt 515)] char_tokenizer"
  have m: "py_num (model_max_length (prompt_handler ?a)) = Some 515"
    by (simp add: anthropic_init_def dict_get_default_def)
  have l: "py_num (max_length (prompt_handler ?a)) = Some 512"
    by (simp add: anthropic_init_def dict_get_def py_or_def)
  have enc: "\<And>p. encode (tokenizer (prompt_handler ?a)) p = p"
    by (simp add: anthropic_init_def char_tokenizer_def)
  have dec: "\<And>p. decode (tokenizer (prompt_handler ?a)) p = p"
    by (simp add: anthropic_init_def char_tokenizer_def)
  from check_prompt_resize [OF m l, of "''hello''"]
  have long: "\<exists>info. check_prompt ?a ''hello'' = Inr info
              \<and> prompt_length info = 5 \<and> prompt_length info + 512 > 515
              \<and> new_prompt_length info = 3 \<and> resized_prompt info = ''hel''"
    unfolding enc dec by auto
  from check_prompt_resize [OF m l, of "''hi''"]
  have short: "\<exists>info. check_prompt ?a ''hi'' = Inr info
              \<and> prompt_length info = 2 \<and> prompt_length info + 512 \<le> 515
              \<and> new_prompt_length info = 2 \<and> resized_prompt info = ''hi''"
    unfolding enc dec by auto
  from m l long short show ?thesis by blast
qed

section \<open>Properties of the response readers\<close>

text \<open>
  Claim C1, as the code has it. \<^verbatim>\<open>get_responses\<close> returns the empty list, without
  raising, for an Anthropic response whose \<^verbatim>\<open>type\<close> is not \<^verbatim>\<open>"message"\<close> and for a
  Mistral response whose \<^verbatim>\<open>outputs\<close> field is missing or an empty list; both hold for
  the empty response. For Meta Llama 2 it returns exactly one message when the response
  has a \<^verbatim>\<open>generation\<close> field and raises \<^verbatim>\<open>KeyError\<close> when it has none.
\<close>

theorem get_responses_degenerate:
  "(dict_get response_body ''type'' \<noteq> JStr ''message'' \<longrightarrow>
      get_responses dumps AnthropicClaude response_body = Inr [])
   \<and> (dict_get_default response_body ''outputs'' (JList []) = JList [] \<longrightarrow>
      get_responses dumps Mistral response_body = Inr [])
   \<and> get_responses dumps MetaLlama2 response_body =
       (case map_of response_body ''generation'' of
          None \<Rightarrow> Inl KeyError
        | Some g \<Rightarrow> Inr [from_assistant g (filter (\<lambda>kv. fst kv \<noteq> ''generation'') response_body)])"
  by (simp add: anthropic_extract_messages_from_response_def mistral_extract_messages_from_response_def
      llama2_extract_messages_from_response_def dict_item_def split: option.split)

theorem get_responses_degenerate_witness:
  "dict_get [] ''type'' \<noteq> JStr ''message''
   \<and> get_responses json_dumps AnthropicClaude [] = Inr []
   \<and> dict_get_default [] ''outputs'' (JList []) = JList []
   \<and> get_responses json_dumps Mistral [] = Inr []
   \<and> get_responses json_dumps MetaLlama2 [(''generation'', JStr ''Hello''), (''stop_reason'', JStr ''stop'')]
       = Inr [from_assistant (JStr ''Hello'') [(''stop_reason'', JStr ''stop'')]]"
proof -
  have t: "dict_get [] ''type'' \<noteq> JStr ''message''" by (simp add: dict_get_def)
  have out: "dict_get_default [] ''outputs'' (JList []) = JList []" by (simp add: dict_get_default_def)
  from get_responses_degenerate [of "[]" json_dumps] t out
  have e: "get_responses json_dumps AnthropicClaude [] = Inr []"
          "get_responses json_dumps Mistral [] = Inr []"
    by blast+
  from get_responses_degenerate
         [of "[(''generation'', JStr ''Hello''), (''stop_reason'', JStr ''stop'')]" json_dumps]
  have g: "get_responses json_dumps MetaLlama2 [(''generation'', JStr ''Hello''), (''stop_reason'', JStr ''stop'')]
       = Inr [from_assistant (JStr ''Hello'') [(''stop_reason'', JStr ''stop'')]]"
    by simp
  from t out e g show ?thesis by blast
qed

text \<open>
  The claim as it is worded fails for the Meta Llama 2 adapter on the empty response:
  \<^verbatim>\<open>response_body["generation"]\<close> raises \<^verbatim>\<open>KeyError\<close>.
\<close>

theorem get_responses_degenerate_counterexample:
  "get_responses json_dumps MetaLlama2 [] = Inl KeyError"
  by (simp add: llama2_extract_messages_from_response_def dict_item_def)

lemma tool_use_loop_objects:
  "\<forall>c\<in>set cs. is_obj c \<Longrightarrow>
   tool_use_loop dumps response_body cs messages =
     Inr (messages @ map (\<lambda>c. from_assistant (JStr (dumps c)) (response_meta response_body))
                         (filter (block_has_type ''tool_use'') cs))"
proof (induction cs arbitrary: messages)
  case Nil
  then show ?case by simp
next
  case (Cons c cs)
  then obtain kvs where c: "c = JObj kvs" by (cases c) auto
  from Cons have IH: "\<And>ms. tool_use_loop dumps response_body cs ms =
     Inr (ms @ map (\<lambda>c. from_assistant (JStr (dumps c)) (response_meta response_body))
                         (filter (block_has_type ''tool_use'') cs))"
    by simp
  show ?case by (simp add: c IH)
qed

lemma dict_item_present:
  "k \<in> fst ` set kvs \<Longrightarrow> dict_item kvs k = Inr (dict_get kvs k)"
  by (auto simp: dict_item_def dict_get_def map_of_eq_None_iff split: option.split)

lemma text_loop_objects:
  "\<forall>c\<in>set cs. is_obj c \<and> (block_has_type ''text'' c \<longrightarrow> block_has_key ''text'' c) \<Longrightarrow>
   text_loop response_body cs messages =
     Inr (messages @ map (\<lambda>c. from_assistant (block_text c) (response_meta response_body))
                         (filter (block_has_type ''text'') cs))"
proof (induction cs arbitrary: messages)
  case Nil
  then show ?case by simp
next
  case (Cons c cs)
  then obtain kvs where c: "c = JObj kvs" by (cases c) auto
  from Cons have IH: "\<And>ms. text_loop response_body cs ms =
     Inr (ms @ map (\<lambda>c. from_assistant (block_text c) (response_meta response_body))
                         (filter (block_has_type ''text'') cs))"
    by simp
  from Cons.prems c have key: "dict_get kvs ''type'' = JStr ''text'' \<Longrightarrow> ''text'' \<in> fst ` set kvs"
    by simp
  show ?case by (simp add: c IH dict_item_present key)
qed

text \<open>
  Claim C8. Take an Anthropic response of type \<^verbatim>\<open>"message"\<close> whose \<^verbatim>\<open>content\<close> is a list
  of dictionaries. When its \<^verbatim>\<open>stop_reason\<close> is \<^verbatim>\<open>"tool_use"\<close>, there is one message for
  every content block of type \<^verbatim>\<open>tool_use\<close>, in order: its content is the serialisation of
  the block and its meta the top-level fields of the response other than \<^verbatim>\<open>type\<close>,
  \<^verbatim>\<open>content\<close> and \<^verbatim>\<open>role\<close>; so a response with exactly one such block gives exactly one
  message. For any other \<^verbatim>\<open>stop_reason\<close>, there is one message for every block of type
  \<^verbatim>\<open>text\<close> (each of them having a \<^verbatim>\<open>text\<close> field), with the text as content and the
  same meta.
\<close>

theorem anthropic_extract_per_block:
  assumes "dict_get response_body ''type'' = JStr ''message''"
      and "map_of response_body ''content'' = Some (JList blocks)"
      and "\<forall>c\<in>set blocks. is_obj c"
  shows "(dict_get response_body ''stop_reason'' = JStr ''tool_use'' \<longrightarrow>
            anthropic_extract_messages_from_response dumps response_body =
              Inr (map (\<lambda>c. from_assistant (JStr (dumps c)) (response_meta response_body))
                       (filter (block_has_type ''tool_use'') blocks)))
       \<and> (dict_get response_body ''stop_reason'' = JStr ''tool_use'' \<longrightarrow>
            (\<forall>c. filter (block_has_type ''tool_use'') blocks = [c] \<longrightarrow>
              anthropic_extract_messages_from_response dumps response_body =
                Inr [from_assistant (JStr (dumps c)) (response_meta response_body)]))
       \<and> (dict_get response_body ''stop_reason'' \<noteq> JStr ''tool_use'' \<longrightarrow>
            (\<forall>c\<in>set blocks. block_has_type ''text'' c \<longrightarrow> block_has_key ''text'' c) \<longrightarrow>
            anthropic_extract_messages_from_response dumps response_body =
              Inr (map (\<lambda>c. from_assistant (block_text c) (response_meta response_body))
                       (filter (block_has_type ''text'') blocks)))"
proof -
  from assms(2) have blocks: "content_blocks response_body = Inr blocks"
    by (simp add: content_blocks_def dict_item_def)
  have tool: "dict_get response_body ''stop_reason'' = JStr ''tool_use'' \<Longrightarrow>
            anthropic_extract_messages_from_response dumps response_body =
              Inr (map (\<lambda>c. from_assistant (JStr (dumps c)) (response_meta response_body))
                       (filter (block_has_type ''tool_use'') blocks))"
    using assms(1,3) blocks
    by (simp add: anthropic_extract_messages_from_response_def tool_use_loop_objects)
  have texts: "dict_get response_body ''stop_reason'' \<noteq> JStr ''tool_use'' \<Longrightarrow>
            (\<forall>c\<in>set blocks. block_has_type ''text'' c \<longrightarrow> block_has_key ''text'' c) \<Longrightarrow>
            anthropic_extract_messages_from_response dumps response_body =
              Inr (map (\<lambda>c. from_assistant (block_text c) (response_meta response_body))
                       (filter (block_has_type ''text'') blocks))"
    using assms(1,3) blocks
    by (simp add: anthropic_extract_messages_from_response_def text_loop_objects)
  from tool texts show ?thesis by simp
qed


theorem anthropic_extract_per_block_witness:
  "dict_get [(''type'', JStr ''message''), (''id'', JStr ''msg_1''), (''role'', JStr ''assistant''),
        (''stop_reason'', JStr ''tool_use''),
        (''content'', JList [JObj [(''type'', JStr ''text''), (''text'', JStr ''Checking'')],
                             JObj [(''type'', JStr ''tool_use''), (''name'', JStr ''get_weather'')]])] ''type'' = JStr ''message''
   \<and> dict_get [(''type'', JStr ''message''), (''id'', JStr ''msg_1''), (''role'', JStr ''assistant''),
        (''stop_reason'', JStr ''tool_use''),
        (''content'', JList [JObj [(''type'', JStr ''text''), (''text'', JStr ''Checking'')],
                             JObj [(''type'', JStr ''tool_use''), (''name'', JStr ''get_weather'')]])] ''stop_reason'' = JStr ''tool_use''
   \<and> anthropic_extract_messages_from_response json_dumps [(''type'', JStr ''message''), (''id'', JStr ''msg_1''), (''role'', JStr ''assistant''),
        (''stop_reason'', JStr ''tool_use''),
        (''content'', JList [JObj [(''type'', JStr ''text''), (''text'', JStr ''Checking'')],
                             JObj [(''type'', JStr ''tool_use''), (''name'', JStr ''get_weather'')]])]
       = Inr [from_assistant
                (JStr (json_dumps (JObj [(''type'', JStr ''tool_use''), (''name'', JStr ''get_weather'')])))
                [(''id'', JStr ''msg_1''), (''stop_reason'', JStr ''tool_use'')]]
   \<and> dict_get [(''type'', JStr ''message''), (''id'', JStr ''msg_2''), (''role'', JStr ''assistant''),
        (''stop_reason'', JStr ''end_turn''),
        (''content'', JList [JObj [(''type'', JStr ''text''), (''text'', JStr ''Hello'')]])] ''type'' = JStr ''message''
   \<and> dict_get [(''type'', JStr ''message''), (''id'', JStr ''msg_2''), (''role'', JStr ''assistant''),
        (''stop_reason'', JStr ''end_turn''),
        (''content'', JList [JObj [(''type'', JStr ''text''), (''text'', JStr ''Hello'')]])] ''stop_reason'' \<noteq> JStr ''tool_use''
   \<and> anthropic_extract_messages_from_response json_dumps [(''type'', JStr ''message''), (''id'', JStr ''msg_2''), (''role'', JStr ''assistant''),
        (''stop_reason'', JStr ''end_turn''),
        (''content'', JList [JObj [(''type'', JStr ''text''), (''text'', JStr ''Hello'')]])]
       = Inr [from_assistant (JStr ''Hello'')
                [(''id'', JStr ''msg_2''), (''stop_reason'', JStr ''end_turn'')]]"
proof -
  let ?b1 = "[(''type'', JStr ''message''), (''id'', JStr ''msg_1''), (''role'', JStr ''assistant''),
        (''stop_reason'', JStr ''tool_use''),
        (''content'', JList [JObj [(''type'', JStr ''text''), (''text'', JStr ''Checking'')],
                             JObj [(''type'', JStr ''tool_use''), (''name'', JStr ''get_weather'')]])]"
  let ?c1 = "[JObj [(''type'', JStr ''text''), (''text'', JStr ''Checking'')],
            JObj [(''type'', JStr ''tool_use''), (''name'', JStr ''get_weather'')]]"
  let ?b2 = "[(''type'', JStr ''message''), (''id'', JStr ''msg_2''), (''role'', JStr ''assistant''),
        (''stop_reason'', JStr ''end_turn''),
        (''content'', JList [JObj [(''type'', JStr ''text''), (''text'', JStr ''Hello'')]])]"
  let ?c2 = "[JObj [(''type'', JStr ''text''), (''text'', JStr ''Hello'')]]"
  have t1: "dict_get ?b1 ''type'' = JStr ''message''" by (simp add: dict_get_def)
  have s1: "dict_get ?b1 ''stop_reason'' = JStr ''tool_use''" by (simp add: dict_get_def)
  have c1: "map_of ?b1 ''content'' = Some (JList ?c1)" by simp
  have o1: "\<forall>c\<in>set ?c1. is_obj c" by simp
  have f1: "filter (block_has_type ''tool_use'') ?c1
              = [JObj [(''type'', JStr ''tool_use''), (''name'', JStr ''get_weather'')]]"
    by (simp add: dict_get_def)
  have m1: "response_meta ?b1 = [(''id'', JStr ''msg_1''), (''stop_reason'', JStr ''tool_use'')]"
    by (simp add: response_meta_def)
  from anthropic_extract_per_block [OF t1 c1 o1, of json_dumps] s1 f1
  have r1: "anthropic_extract_messages_from_response json_dumps ?b1
       = Inr [from_assistant
                (JStr (json_dumps (JObj [(''type'', JStr ''tool_use''), (''name'', JStr ''get_weather'')])))
                (response_meta ?b1)]"
    by blast
  have t2: "dict_get ?b2 ''type'' = JStr ''message''" by (simp add: dict_get_def)
  have s2: "dict_get ?b2 ''stop_reason'' \<noteq> JStr ''tool_use''" by (simp add: dict_get_def)
  have c2: "map_of ?b2 ''content'' = Some (JList ?c2)" by simp
  have o2: "\<forall>c\<in>set ?c2. is_obj c" by simp
  have k2: "\<forall>c\<in>set ?c2. block_has_type ''text'' c \<longrightarrow> block_has_key ''text'' c" by simp
  have f2: "map (\<lambda>c. from_assistant (block_text c) (response_meta ?b2))
                (filter (block_has_type ''text'') ?c2)
              = [from_assistant (JStr ''Hello'') (response_meta ?b2)]"
    by (simp add: dict_get_def)
  have m2: "response_meta ?b2 = [(''id'', JStr ''msg_2''), (''stop_reason'', JStr ''end_turn'')]"
    by (simp add: response_meta_def)
  from anthropic_extract_per_block [OF t2 c2 o2, of json_dumps] s2 k2
  have "anthropic_extract_messages_from_response json_dumps ?b2
       = Inr (map (\<lambda>c. from_assistant (block_text c) (response_meta ?b2))
                (filter (block_has_type ''text'') ?c2))"
    by blast
  then have r2: "anthropic_extract_messages_from_response json_dumps ?b2
       = Inr [from_assistant (JStr ''Hello'') (response_meta ?b2)]"
    unfolding f2 .
  from t1 s1 r1 t2 s2 r2 show ?thesis unfolding m1 m2 by blast
qed

section \<open>Properties of the Anthropic request body\<close>

text \<open>
  Claim C7. The Anthropic adapter constructed with empty generation kwargs and
  truncation disabled, given a system message \<^verbatim>\<open>"You are helpful"\<close> followed by a user
  message \<^verbatim>\<open>"Hi"\<close> and no inference kwargs, returns the body with exactly the entries
  \<^verbatim>\<open>messages\<close> (one user message whose content is one text block \<^verbatim>\<open>"Hi"\<close>), \<^verbatim>\<open>system\<close>,
  \<^verbatim>\<open>anthropic_version = "bedrock-2023-05-31"\<close> and \<^verbatim>\<open>max_tokens = 512\<close>, and logs no
  warning. The entries are listed in the order the code inserts them; the equality of
  two dictionaries does not depend on that order.
\<close>

theorem anthropic_prepare_body_example:
  "anthropic_prepare_body (anthropic_init (Some False) [] tok)
     [from_system ''You are helpful'', from_user ''Hi''] []
   = Inr ([(''messages'',
             JList [JObj [(''content'', JList [JObj [(''type'', JStr ''text''), (''text'', JStr ''Hi'')]]),
                          (''role'', JStr ''user'')]]),
           (''system'', JStr ''You are helpful''),
           (''anthropic_version'', JStr ''bedrock-2023-05-31''),
           (''max_tokens'', JInt 512)],
          [])"
  by (simp add: anthropic_prepare_body_def anthropic_init_def adapter_get_params_def get_params_def
      dict_get_def dict_get_default_def py_or_def anthropic_ALLOWED_PARAMS_def
      anthropic_prepare_chat_messages_def truncate_on_def from_system_def from_user_def
      to_anthropic_message_def)

lemma ensure_messages_limit_resized:
  "ensure_messages_limit a ms = Inr (resized, w) \<Longrightarrow>
   list_all2 (\<lambda>m r. role r = role m \<and> meta r = meta m
                 \<and> (\<exists>w'. ensure_token_limit a (content m) = Inr (content r, w'))) ms resized"
proof (induction ms arbitrary: resized w)
  case Nil
  then show ?case by simp
next
  case (Cons m ms)
  from Cons.prems obtain t w1 ms' w2 where
    head: "ensure_token_limit a (content m) = Inr (t, w1)"
    and tail: "ensure_messages_limit a ms = Inr (ms', w2)"
    and res: "resized = m\<lparr>content := t\<rparr> # ms'"
    by (auto split: sum.splits)
  from Cons.IH [OF tail] head res show ?case by auto
qed

text \<open>
  Claim C9. When \<^verbatim>\<open>prepare_chat_messages\<close> of the Anthropic adapter returns a body, its
  \<^verbatim>\<open>messages\<close> array holds exactly the user and assistant messages of the conversation,
  in order, each with its role (and its text, resized when truncation is on); the
  \<^verbatim>\<open>system\<close> field is present only when the first message of the list is a system
  message, and then holds its content; and the body has no other key. So a system
  message at a later place is in neither.
\<close>

theorem anthropic_prepare_chat_messages_roles:
  assumes "anthropic_prepare_chat_messages a messages = Inr (body, w)"
  shows "\<exists>resized.
           map_of body ''messages'' = Some (JList (map to_anthropic_message resized))
         \<and> list_all2 (\<lambda>m r. role r = role m \<and> meta r = meta m
                 \<and> (if truncate_on a
                     then \<exists>w'. ensure_token_limit a (content m) = Inr (content r, w')
                     else content r = content m))
             (filter (\<lambda>m. role m = USER \<or> role m = ASSISTANT) messages) resized
         \<and> map_of body ''system'' =
             (case messages of
                [] \<Rightarrow> None
              | m # _ \<Rightarrow> if role m = SYSTEM \<and> content m \<noteq> [] then Some (JStr (content m)) else None)
         \<and> fst ` set body \<subseteq> {''messages'', ''system''}"
proof (cases "truncate_on a")
  case False
  let ?kept = "filter (\<lambda>m. role m = USER \<or> role m = ASSISTANT) messages"
  have refl: "list_all2 (\<lambda>m r. role r = role m \<and> meta r = meta m \<and> content r = content m) ?kept ?kept"
    by (simp add: list_all2_same)
  from assms False have
    "map_of body ''messages'' = Some (JList (map to_anthropic_message ?kept))
     \<and> map_of body ''system'' =
             (case messages of
                [] \<Rightarrow> None
              | m # _ \<Rightarrow> if role m = SYSTEM \<and> content m \<noteq> [] then Some (JStr (content m)) else None)
     \<and> fst ` set body \<subseteq> {''messages'', ''system''}"
    by (auto simp: anthropic_prepare_chat_messages_def Let_def split: list.splits if_splits)
  with refl False show ?thesis by auto
next
  case True
  let ?kept = "filter (\<lambda>m. role m = USER \<or> role m = ASSISTANT) messages"
  from assms True obtain resized where
    lim: "ensure_messages_limit a ?kept = Inr (resized, w)"
    and body: "body = [(''messages'', JList (map to_anthropic_message resized))]
                 @ (case (case messages of [] \<Rightarrow> None
                          | m # _ \<Rightarrow> if role m = SYSTEM then Some (content m) else None) of
                      None \<Rightarrow> []
                    | Some s \<Rightarrow> if s \<noteq> [] then [(''system'', JStr s)] else [])"
    by (auto simp: anthropic_prepare_chat_messages_def Let_def split: sum.splits)
  from body have
    "map_of body ''messages'' = Some (JList (map to_anthropic_message resized))
     \<and> map_of body ''system'' =
             (case messages of
                [] \<Rightarrow> None
              | m # _ \<Rightarrow> if role m = SYSTEM \<and> content m \<noteq> [] then Some (JStr (content m)) else None)
     \<and> fst ` set body \<subseteq> {''messages'', ''system''}"
    by (auto split: list.splits if_splits)
  with ensure_messages_limit_resized [OF lim] True show ?thesis by auto
qed


theorem anthropic_prepare_chat_messages_roles_witness:
  "anthropic_prepare_chat_messages (anthropic_init None [] char_tokenizer)
       [from_user ''Hi'', from_system ''Be brief'', from_assistant ''Yo'' []]
     = Inr ([(''messages'',
              JList [to_anthropic_message (from_user ''Hi''),
                     to_anthropic_message (from_assistant ''Yo'' [])])], [])
   \<and> map_of [(''messages'',
              JList [to_anthropic_message (from_user ''Hi''),
                     to_anthropic_message (from_assistant ''Yo'' [])])] ''system'' = None
   \<and> anthropic_prepare_chat_messages (anthropic_init None [] char_tokenizer)
       [from_system ''Be brief'', from_user ''Hi'']
     = Inr ([(''messages'', JList [to_anthropic_message (from_user ''Hi'')]),
             (''system'', JStr ''Be brief'')], [])
   \<and> map_of [(''messages'', JList [to_anthropic_message (from_user ''Hi'')]),
             (''system'', JStr ''Be brief'')] ''system'' = Some (JStr ''Be brief'')"
proof -
  let ?a = "anthropic_init None [] char_tokenizer"
  have off: "\<not> truncate_on ?a" by (simp add: truncate_on_def anthropic_init_def)
  have h1: "anthropic_prepare_chat_messages ?a
       [from_user ''Hi'', from_system ''Be brief'', from_assistant ''Yo'' []]
     = Inr ([(''messages'',
              JList [to_anthropic_message (from_user ''Hi''),
                     to_anthropic_message (from_assistant ''Yo'' [])])], [])"
    using off by (simp add: anthropic_prepare_chat_messages_def from_user_def from_system_def
        from_assistant_def)
  have h2: "anthropic_prepare_chat_messages ?a [from_system ''Be brief'', from_user ''Hi'']
     = Inr ([(''messages'', JList [to_anthropic_message (from_user ''Hi'')]),
             (''system'', JStr ''Be brief'')], [])"
    using off by (simp add: anthropic_prepare_chat_messages_def from_user_def from_system_def)
  from anthropic_prepare_chat_messages_roles [OF h1]
  have s1: "map_of [(''messages'',
              JList [to_anthropic_message (from_user ''Hi''),
                     to_anthropic_message (from_assistant ''Yo'' [])])] ''system'' = None"
    by (simp add: from_user_def)
  from anthropic_prepare_chat_messages_roles [OF h2]
  have s2: "map_of [(''messages'', JList [to_anthropic_message (from_user ''Hi'')]),
             (''system'', JStr ''Be brief'')] ''system'' = Some (JStr ''Be brief'')"
    by (simp add: from_system_def)
  from h1 s1 h2 s2 show ?thesis by blast
qed

section \<open>Properties of the stream reader\<close>

lemma stream_loop_payloads:
  "stream_loop build cb stream (chunks, lastc, s) =
     (chunks @ map build (payloads stream),
      (if payloads stream = [] then lastc else last (payloads stream)),
      foldl (\<lambda>st p. cb (build p) st) s (payloads stream))"
proof (induction stream arbitrary: chunks lastc s)
  case Nil
  then show ?case by simp
next
  case (Cons ev stream)
  show ?case
  proof (cases ev)
    case NoChunk
    with Cons show ?thesis by simp
  next
    case (Chunk payload)
    with Cons show ?thesis by (simp add: Let_def)
  qed
qed

text \<open>
  Claim C2, as the code has it. For every finite stream, \<^verbatim>\<open>get_stream_responses\<close> calls
  the callback once for each fragment that carries a payload, in arrival order, and
  returns exactly one assistant message: its content is the concatenation of the texts
  of all the chunks with the leading whitespace of the whole concatenation removed, and
  its meta is the payload of the last fragment that carried one (empty if none did). For
  three fragments of which only the second has a text, \<^verbatim>\<open>"foo"\<close>, the callback sees the
  three chunks in order and the content is \<^verbatim>\<open>"foo"\<close>.
\<close>

theorem get_stream_responses_result:
  "get_stream_responses build cb stream s0 =
     ([\<lparr>role = ASSISTANT,
        content = py_lstrip (concat (map (\<lambda>p. chunk_content (build p)) (payloads stream))),
        meta = (if payloads stream = [] then [] else last (payloads stream))\<rparr>],
      foldl (\<lambda>st p. cb (build p) st) s0 (payloads stream))
   \<and> get_stream_responses llama2_build_streaming_chunk record_chunk
       [Chunk [(''generation'', JStr [])], Chunk [(''generation'', JStr ''foo'')],
        Chunk [(''generation'', JStr [])]] []
     = ([\<lparr>role = ASSISTANT, content = ''foo'', meta = [(''generation'', JStr [])]\<rparr>],
        [\<lparr>chunk_content = [], chunk_meta = [(''generation'', JStr [])]\<rparr>,
         \<lparr>chunk_content = ''foo'', chunk_meta = [(''generation'', JStr ''foo'')]\<rparr>,
         \<lparr>chunk_content = [], chunk_meta = [(''generation'', JStr [])]\<rparr>])"
proof -
  have general: "\<And>build cb stream s0. get_stream_responses build cb stream s0 =
     ([\<lparr>role = ASSISTANT,
        content = py_lstrip (concat (map (\<lambda>p. chunk_content (build p)) (payloads stream))),
        meta = (if payloads stream = [] then [] else last (payloads stream))\<rparr>],
      foldl (\<lambda>st p. cb (build p) st) s0 (payloads stream))"
    by (simp add: get_stream_responses_def stream_loop_payloads from_assistant_def comp_def)
  show ?thesis
    by (rule conjI, rule general)
       (simp add: general llama2_build_streaming_chunk_def record_chunk_def dict_get_default_def
          py_lstrip_def py_isspace_def)
qed

text \<open>
  The claim as it is worded strips the leading whitespace of the first chunk only. The
  code strips the joined text: when the first chunk is empty and the second starts with a
  space, the space of the second chunk is removed too.
\<close>

theorem get_stream_responses_result_counterexample:
  "fst (get_stream_responses llama2_build_streaming_chunk record_chunk
          [Chunk [(''generation'', JStr [])], Chunk [(''generation'', JStr '' foo'')]] [])
     = [\<lparr>role = ASSISTANT, content = ''foo'', meta = [(''generation'', JStr '' foo'')]\<rparr>]
   \<and> chunk_content (llama2_build_streaming_chunk [(''generation'', JStr [])]) = []
   \<and> chunk_content (llama2_build_streaming_chunk [(''generation'', JStr '' foo'')]) = '' foo''
   \<and> py_lstrip [] @ '' foo'' \<noteq> ''foo''"
  by (simp add: get_stream_responses_def llama2_build_streaming_chunk_def record_chunk_def
      dict_get_default_def py_lstrip_def py_isspace_def from_assistant_def Let_def)

text \<open>
  Claim C10. \<^verbatim>\<open>get_stream_responses\<close> returns a list of exactly one message for every
  stream; for a stream without a fragment that carries a payload (the empty stream
  included) it is an assistant message with empty content and empty meta, and the
  caller's state is unchanged: the callback is never called.
\<close>

theorem get_stream_responses_single:
  "length (fst (get_stream_responses build cb stream s0)) = 1
   \<and> (payloads stream = [] \<longrightarrow>
        get_stream_responses build cb stream s0
          = ([\<lparr>role = ASSISTANT, content = [], meta = []\<rparr>], s0))"
  by (simp add: get_stream_responses_def stream_loop_payloads from_assistant_def py_lstrip_def)

theorem get_stream_responses_single_witness:
  "payloads [NoChunk, NoChunk] = []
   \<and> get_stream_responses llama2_build_streaming_chunk record_chunk [NoChunk, NoChunk] []
       = ([\<lparr>role = ASSISTANT, content = [], meta = []\<rparr>], [])
   \<and> payloads ([] :: event list) = []
   \<and> get_stream_responses llama2_build_streaming_chunk record_chunk [] []
       = ([\<lparr>role = ASSISTANT, content = [], meta = []\<rparr>], [])"
proof -
  have p: "payloads [NoChunk, NoChunk] = []" by simp
  have q: "payloads ([] :: event list) = []" by simp
  from get_stream_responses_single
         [of llama2_build_streaming_chunk record_chunk "[NoChunk, NoChunk]" "[]"] p
  have a: "get_stream_responses llama2_build_streaming_chunk record_chunk [NoChunk, NoChunk] []
       = ([\<lparr>role = ASSISTANT, content = [], meta = []\<rparr>], [])"
    by blast
  from get_stream_responses_single [of llama2_build_streaming_chunk record_chunk "[]" "[]"] q
  have b: "get_stream_responses llama2_build_streaming_chunk record_chunk [] []
       = ([\<lparr>role = ASSISTANT, content = [], meta = []\<rparr>], [])"
    by blast
  from p q a b show ?thesis by blast
qed

section \<open>Properties of the chat templates\<close>

lemma role_value_user [simp]: "(role_value r = ''user'') = (r = USER)"
  by (cases r) simp_all

lemma role_value_assistant [simp]: "(role_value r = ''assistant'') = (r = ASSISTANT)"
  by (cases r) simp_all

lemma role_value_system [simp]: "(role_value r = ''system'') = (r = SYSTEM)"
  by (cases r) simp_all

text \<open>
  The loops raise exactly when some message at an even place of the loop is not from the
  user, or some message at an odd place is.
\<close>

lemma mistral_template_loop_raises:
  "(mistral_template_loop system_message eos n ms = Inl alternation_error)
     = (\<exists>i<length ms. (role (ms ! i) = USER) \<noteq> ((n + i) mod 2 = 0))"
proof (induction ms arbitrary: n)
  case Nil
  then show ?case by simp
next
  case (Cons m ms)
  have split: "(\<exists>i<length (m # ms). (role ((m # ms) ! i) = USER) \<noteq> ((n + i) mod 2 = 0))
      = ((role m = USER) \<noteq> (n mod 2 = 0)
         \<or> (\<exists>i<length ms. (role (ms ! i) = USER) \<noteq> ((Suc n + i) mod 2 = 0)))"
    by (auto simp: less_Suc_eq_0_disj)
  show ?case unfolding split using Cons.IH [of "Suc n"]
    by (auto simp: Let_def split: sum.splits)
qed

lemma llama2_template_loop_raises:
  "(llama2_template_loop system_message bos eos n ms = Inl alternation_error)
     = (\<exists>i<length ms. (role (ms ! i) = USER) \<noteq> ((n + i) mod 2 = 0))"
proof (induction ms arbitrary: n)
  case Nil
  then show ?case by simp
next
  case (Cons m ms)
  have split: "(\<exists>i<length (m # ms). (role ((m # ms) ! i) = USER) \<noteq> ((n + i) mod 2 = 0))
      = ((role m = USER) \<noteq> (n mod 2 = 0)
         \<or> (\<exists>i<length ms. (role (ms ! i) = USER) \<noteq> ((Suc n + i) mod 2 = 0)))"
    by (auto simp: less_Suc_eq_0_disj)
  show ?case unfolding split using Cons.IH [of "Suc n"]
    by (auto simp: Let_def split: sum.splits)
qed

lemma two_user_messages_raise:
  "mistral_prepare_body (mistral_init None [] tok) [from_user ''a'', from_user ''b''] []
     = Inl alternation_error
   \<and> llama2_prepare_body (llama2_init None [] tok) [from_user ''a'', from_user ''b''] []
     = Inl alternation_error"
  by (simp add: mistral_prepare_body_def mistral_init_def llama2_prepare_body_def llama2_init_def
      adapter_get_params_def get_params_def dict_get_def dict_get_default_def py_or_def
      mistral_prepare_chat_messages_def llama2_prepare_chat_messages_def
      mistral_chat_template_def llama2_chat_template_def from_user_def Let_def)

text \<open>
  Claim C6 at a failing input. The conversation of a user message followed by a system
  message does not alternate between user and assistant, and \<^verbatim>\<open>prepare_body\<close> of the
  Mistral and of the Meta Llama 2 adapter returns a body for it: the test of the
  templates only compares being a user message with the parity of the place, so a
  system message in the second place passes, and it is left out of the prompt.
\<close>

theorem system_message_in_second_place_accepted:
  "mistral_prepare_body (mistral_init None [] tok) [from_user ''a'', from_system ''b''] []
     = Inr ([(''prompt'', JStr (bos_token tok @ ''[INST] a [/INST]'')), (''max_tokens'', JInt 512)], [])
   \<and> llama2_prepare_body (llama2_init None [] tok) [from_user ''a'', from_system ''b''] []
     = Inr ([(''prompt'', JStr ''<s>[INST] a [/INST]''), (''max_gen_len'', JInt 512)], [])"
  by (simp add: mistral_prepare_body_def mistral_init_def llama2_prepare_body_def llama2_init_def
      adapter_get_params_def get_params_def dict_get_def dict_get_default_def py_or_def
      mistral_prepare_chat_messages_def llama2_prepare_chat_messages_def truncate_on_def
      mistral_chat_template_def llama2_chat_template_def from_user_def from_system_def Let_def
      py_strip_def py_isspace_def)

end
